theory Spec2Isabelle
  imports Main "HOL-Library.Word" "HOL-Library.AList" "HOL-Library.Multiset"
    "HOL-Library.Char_ord" "HOL-Library.List_Lexorder"
begin

unbundle bit_operations_syntax

section \<open>Data model\<close>

text \<open>
  Go byte slices are lists of bytes; an Isabelle \<^typ>\<open>char\<close> is one byte, so
  a byte slice is a \<^typ>\<open>string\<close> and the byte literals of the source can
  be written as they are.
\<close>

type_synonym bytes = string

text \<open>
  \<^verbatim>\<open>event.E\<close>: \<^verbatim>\<open>CreatedAt\<close> is a \<^verbatim>\<open>timestamp.T\<close> holding an
  \<^verbatim>\<open>int64\<close>, \<^verbatim>\<open>Kind\<close> a \<^verbatim>\<open>kind.T\<close> holding a \<^verbatim>\<open>uint16\<close>, a tag is
  a list of byte slices. The 64-bit word is the bit pattern of the timestamp:
  \<^term>\<open>sint\<close> reads it as the \<^verbatim>\<open>int64\<close> (\<^verbatim>\<open>Int()\<close>, \<^verbatim>\<open>I64()\<close>), \<^term>\<open>unat\<close>
  as the converted \<^verbatim>\<open>uint64\<close> (\<^verbatim>\<open>U64()\<close>).
\<close>

record event =
  ID :: bytes
  Pubkey :: bytes
  CreatedAt :: "64 word"
  Kind :: "16 word"
  Tags :: "bytes list list"
  Content :: bytes
  Sig :: bytes

datatype error = EOF | ErrDBClosed | Err string

text \<open>
  \<^verbatim>\<open>filter.F\<close>. \<^verbatim>\<open>Ids\<close> and \<^verbatim>\<open>Authors\<close> are \<^verbatim>\<open>tag.T\<close> values (lists of
  byte slices), \<^verbatim>\<open>Kinds\<close> a list of kinds, \<^verbatim>\<open>Tags\<close> a list of tags whose first
  element is the key; \<^verbatim>\<open>Since\<close>, \<^verbatim>\<open>Until\<close> and \<^verbatim>\<open>Limit\<close> are pointers
  (\<^verbatim>\<open>Limit\<close> to a \<^verbatim>\<open>uint\<close>), absent when nil.
\<close>

record filter =
  Ids :: "bytes list"
  Kinds :: "16 word list"
  Authors :: "bytes list"
  Tags_f :: "bytes list list"
  Since :: "64 word option"
  Until :: "64 word option"
  Limit :: "64 word option"

definition filter_New :: filter where
  "filter_New =
     \<lparr>Ids = [], Kinds = [], Authors = [], Tags_f = [], Since = None, Until = None,
      Limit = None\<rparr>"

text \<open>
  What goes out on the socket: \<^verbatim>\<open>okenvelope\<close> (event id, accepted, reason),
  \<^verbatim>\<open>eventenvelope.Result\<close> (subscription id, event), \<^verbatim>\<open>eoseenvelope\<close>,
  \<^verbatim>\<open>closedenvelope\<close> (subscription id, reason), the \<^verbatim>\<open>authenvelope\<close> challenge
  and \<^verbatim>\<open>noticeenvelope\<close>.
\<close>

datatype envelope =
    OkEnvelope bytes bool bytes
  | EventResult bytes event
  | EoseEnvelope bytes
  | ClosedEnvelope bytes bytes
  | AuthChallenge bytes
  | NoticeEnvelope bytes

text \<open>
  \<^verbatim>\<open>ws.Listener\<close>, as far as the handlers use it: the frames written so far,
  oldest first, and the authentication state. A write can fail (the peer is gone):
  \<^verbatim>\<open>credit\<close> is the number of writes the connection still takes, after which
  every write returns an error and writes nothing.
\<close>

record listener =
  frames :: "envelope list"
  credit :: nat
  IsAuthed :: bool
  AuthedPubkey :: bytes
  Challenge :: bytes
  auth_requested :: bool

definition Write :: "listener \<Rightarrow> envelope \<Rightarrow> error + listener" where
  "Write l e =
     (if credit l = 0 then Inl (Err ''write failed'')
      else Inr (l\<lparr>frames := frames l @ [e], credit := credit l - 1\<rparr>))"

text \<open>
  Most replies of the handlers have the shape
  \<^verbatim>\<open>if err = Ok.X(...); chk.E(err) { return }; return\<close>: the handler returns
  whether or not the write went through. \<^verbatim>\<open>reply\<close> is the listener after such an
  attempt.
\<close>

definition reply :: "listener \<Rightarrow> envelope \<Rightarrow> listener" where
  "reply l e = (case Write l e of Inl err \<Rightarrow> l | Inr l' \<Rightarrow> l')"

text \<open>\<^verbatim>\<open>reqenvelope.T\<close>: the subscription id and the filters of a REQ.\<close>

record reqenvelope =
  Subscription :: bytes
  Filters :: "filter list"

section \<open>The binary event record (pkg/encoders/event/binary.go)\<close>

text \<open>
  Modelled from the spec: package \<^verbatim>\<open>varint\<close> (\<^verbatim>\<open>Encode\<close>, \<^verbatim>\<open>Decode\<close>) is not
  among the sources. The spec calls the fields of the record "varint-prefixed"; this
  is the usual unsigned base-128 varint: seven bits per byte, least significant group
  first, the high bit set on every byte but the last. The decoder adds the groups
  shifted by \<open>7 * i\<close> into a \<^verbatim>\<open>uint64\<close>, so the sum is taken modulo \<open>2 ^ 64\<close>.
\<close>

fun put_uvarint :: "nat \<Rightarrow> bytes" where
  "put_uvarint v =
     (if v < 128 then [char_of v] else char_of (v mod 128 + 128) # put_uvarint (v div 128))"

definition varint_Encode :: "64 word \<Rightarrow> bytes" where
  "varint_Encode v = put_uvarint (unat v)"

fun get_uvarint :: "nat \<Rightarrow> nat \<Rightarrow> bytes \<Rightarrow> error + nat \<times> bytes" where
  "get_uvarint i v [] = Inl EOF"
| "get_uvarint i v (x # r) =
     (if 128 \<le> (of_char x :: nat)
      then get_uvarint (i + 1) (v + (of_char x - 128) * 2 ^ (7 * i)) r
      else Inr (v + of_char x * 2 ^ (7 * i), r))"

definition varint_Decode :: "bytes \<Rightarrow> error + 64 word \<times> bytes" where
  "varint_Decode r =
     (case get_uvarint 0 0 r of
        Inl e \<Rightarrow> Inl e
      | Inr (v, r') \<Rightarrow> Inr (word_of_nat v, r'))"

text \<open>
  The \<^verbatim>\<open>io.Reader\<close> is the in-memory buffer the database hands over
  (\<^verbatim>\<open>bytes.Buffer\<close>): the state of the reader is the list of unread bytes.
  \<^verbatim>\<open>Read\<close> into a slice of length \<open>n\<close> fails with \<^verbatim>\<open>io.EOF\<close> only when
  nothing is left and \<open>n\<close> is positive; a short read is not an error and leaves the
  tail of the freshly made slice zero.
\<close>

definition Read :: "nat \<Rightarrow> bytes \<Rightarrow> error + bytes \<times> bytes" where
  "Read n r =
     (if r = [] \<and> 0 < n then Inl EOF
      else Inr (take n r @ replicate (n - length r) (CHR 0x00), drop n r))"

text \<open>
  \<^verbatim>\<open>MarshalBinary\<close> writes into an \<^verbatim>\<open>io.Writer\<close> and drops every write
  error; the model returns the bytes written, in order.
\<close>

definition MarshalBinary :: "event \<Rightarrow> bytes" where
  "MarshalBinary ev =
     ID ev @ Pubkey ev @
     varint_Encode (CreatedAt ev) @
     varint_Encode (ucast (Kind ev)) @
     varint_Encode (word_of_nat (length (Tags ev))) @
     concat (map (\<lambda>x. varint_Encode (word_of_nat (length x)) @
                      concat (map (\<lambda>y. varint_Encode (word_of_nat (length y)) @ y) x))
                 (Tags ev)) @
     varint_Encode (word_of_nat (length (Content ev))) @
     Content ev @ Sig ev"

text \<open>The inner loop \<^verbatim>\<open>for range nField\<close>: the elements of one tag.\<close>

fun read_fields :: "nat \<Rightarrow> bytes list \<Rightarrow> bytes \<Rightarrow> error + bytes list \<times> bytes" where
  "read_fields 0 t r = Inr (t, r)"
| "read_fields (Suc n) t r =
     (case varint_Decode r of
        Inl e \<Rightarrow> Inl e
      | Inr (lenField, r1) \<Rightarrow>
         (case Read (unat lenField) r1 of
            Inl e \<Rightarrow> Inl e
          | Inr (field, r2) \<Rightarrow> read_fields n (t @ [field]) r2))"

text \<open>The outer loop \<^verbatim>\<open>for range nTags\<close>.\<close>

fun read_tags :: "nat \<Rightarrow> bytes list list \<Rightarrow> bytes \<Rightarrow> error + bytes list list \<times> bytes" where
  "read_tags 0 ts r = Inr (ts, r)"
| "read_tags (Suc n) ts r =
     (case varint_Decode r of
        Inl e \<Rightarrow> Inl e
      | Inr (nField, r1) \<Rightarrow>
         (case read_fields (unat nField) [] r1 of
            Inl e \<Rightarrow> Inl e
          | Inr (t, r2) \<Rightarrow> read_tags n (ts @ [t]) r2))"

text \<open>
  \<^verbatim>\<open>UnmarshalBinary\<close> returns the first error, or the event read and the unread
  rest of the buffer. \<^verbatim>\<open>kind.New(k)\<close> narrows the decoded \<^verbatim>\<open>uint64\<close> to
  \<^verbatim>\<open>uint16\<close>; \<^verbatim>\<open>timestamp.New(int64(ca))\<close> keeps the bit pattern.
\<close>

definition UnmarshalBinary :: "bytes \<Rightarrow> error + event \<times> bytes" where
  "UnmarshalBinary r =
     (case Read 32 r of Inl e \<Rightarrow> Inl e | Inr (eid, r1) \<Rightarrow>
      case Read 32 r1 of Inl e \<Rightarrow> Inl e | Inr (pk, r2) \<Rightarrow>
      case varint_Decode r2 of Inl e \<Rightarrow> Inl e | Inr (ca, r3) \<Rightarrow>
      case varint_Decode r3 of Inl e \<Rightarrow> Inl e | Inr (k, r4) \<Rightarrow>
      case varint_Decode r4 of Inl e \<Rightarrow> Inl e | Inr (nTags, r5) \<Rightarrow>
      case read_tags (unat nTags) [] r5 of Inl e \<Rightarrow> Inl e | Inr (ts, r6) \<Rightarrow>
      case varint_Decode r6 of Inl e \<Rightarrow> Inl e | Inr (cLen, r7) \<Rightarrow>
      case Read (unat cLen) r7 of Inl e \<Rightarrow> Inl e | Inr (content, r8) \<Rightarrow>
      case Read 64 r8 of Inl e \<Rightarrow> Inl e | Inr (sg, r9) \<Rightarrow>
        Inr (\<lparr>ID = eid, Pubkey = pk, CreatedAt = ca, Kind = ucast k, Tags = ts,
              Content = content, Sig = sg\<rparr>, r9))"

text \<open>A sample event: a kind-1 note with two tags, one of them with an empty element.\<close>

definition note_ev :: event where
  "note_ev =
     \<lparr>ID = replicate 32 (CHR ''i''), Pubkey = replicate 32 (CHR ''p''),
      CreatedAt = 1733739427, Kind = 1,
      Tags = [[''e'', ''abc''], [''t'', '''', ''x'']],
      Content = ''hi'', Sig = replicate 64 (CHR ''s'')\<rparr>"

section \<open>Canonical form and signature check (pkg/encoders/event/canonical.go)\<close>

text \<open>
  The encoders \<^verbatim>\<open>ToCanonical\<close> calls (packages \<^verbatim>\<open>hex\<close>, \<^verbatim>\<open>timestamp\<close>,
  \<^verbatim>\<open>kind\<close>, \<^verbatim>\<open>tags\<close>, \<^verbatim>\<open>text\<close>), SHA-256 and the JSON decoders the
  handlers call are not among the sources: they are parameters, gathered here. Each
  \<^verbatim>\<open>Marshal\<close> and \<^verbatim>\<open>EncAppend\<close> of the source appends its encoding to the
  slice it is given; the field is the encoding that is appended.
\<close>

record codec =
  hex_Enc :: "bytes \<Rightarrow> bytes"
  timestamp_Marshal :: "64 word \<Rightarrow> bytes"
  kind_Marshal :: "16 word \<Rightarrow> bytes"
  tags_Marshal :: "bytes list list \<Rightarrow> bytes"
  text_Quote :: "bytes \<Rightarrow> bytes"
  sha256_Sum256 :: "bytes \<Rightarrow> bytes"
  hex_DecBytes :: "bytes \<Rightarrow> bytes \<Rightarrow> error + bytes"
  hex_DecAppend :: "bytes \<Rightarrow> bytes \<Rightarrow> error + bytes"
  ints_Unmarshal :: "bytes \<Rightarrow> error + 64 word"
  event_Unmarshal :: "bytes \<Rightarrow> error + event"
  req_Unmarshal :: "bytes \<Rightarrow> error + reqenvelope"

definition ToCanonical :: "codec \<Rightarrow> event \<Rightarrow> bytes \<Rightarrow> bytes" where
  "ToCanonical cx ev dst =
     dst @ ''[0,'' @ [CHR 0x22] @ hex_Enc cx (Pubkey ev) @ [CHR 0x22] @ '','' @
     timestamp_Marshal cx (CreatedAt ev) @ '','' @
     kind_Marshal cx (Kind ev) @ '','' @
     tags_Marshal cx (Tags ev) @ '','' @
     text_Quote cx (Content ev) @ '']''"

definition Hash :: "codec \<Rightarrow> bytes \<Rightarrow> bytes" where
  "Hash cx b = sha256_Sum256 cx b"

definition GetIDBytes :: "codec \<Rightarrow> event \<Rightarrow> bytes" where
  "GetIDBytes cx ev = Hash cx (ToCanonical cx ev [])"

text \<open>
  The signer is \<^verbatim>\<open>btcec.Signer\<close> (pkg/crypto/p256k/btcec/btcec.go), which
  \<^verbatim>\<open>p256k.Signer\<close> is an alias of in the build without cgo. The \<^verbatim>\<open>schnorr\<close>
  package it rests on is not among the sources: parsing a key, parsing a signature and
  the BIP-340 check itself are parameters. A Go result \<^verbatim>\<open>(valid bool, err error)\<close>
  is a pair of the flag and the error, if any.
\<close>

record ('pk, 'sg) schnorr =
  ParsePubKey :: "bytes \<Rightarrow> error + 'pk"
  ParseSignature :: "bytes \<Rightarrow> error + 'sg"
  Signature_Verify :: "'sg \<Rightarrow> bytes \<Rightarrow> 'pk \<Rightarrow> bool"

record 'pk Signer =
  PublicKey :: "'pk option"
  pkb :: bytes

definition InitPub ::
  "('pk, 'sg) schnorr \<Rightarrow> 'pk Signer \<Rightarrow> bytes \<Rightarrow> error option \<times> 'pk Signer" where
  "InitPub sch s pub =
     (case ParsePubKey sch pub of
        Inl e \<Rightarrow> (Some e, s\<lparr>PublicKey := None\<rparr>)
      | Inr k \<Rightarrow> (None, s\<lparr>PublicKey := Some k, pkb := pub\<rparr>))"

definition Signer_Verify ::
  "('pk, 'sg) schnorr \<Rightarrow> 'pk Signer \<Rightarrow> bytes \<Rightarrow> bytes \<Rightarrow> bool \<times> error option" where
  "Signer_Verify sch s msg sg =
     (case PublicKey s of
        None \<Rightarrow> (False, Some (Err ''btcec: Pubkey not initialized''))
      | Some k \<Rightarrow>
         (case ParseSignature sch sg of
            Inl e \<Rightarrow> (False, Some (Err ''failed to parse signature''))
          | Inr si \<Rightarrow> (Signature_Verify sch si msg k, None)))"

text \<open>
  \<^verbatim>\<open>Verify\<close> works on a pointer and may overwrite \<^verbatim>\<open>ev.ID\<close>: the model returns
  the event as it is left, next to the result. The id is recomputed only on the path
  where the signer reported an error.
\<close>

definition Verify ::
  "('pk, 'sg) schnorr \<Rightarrow> codec \<Rightarrow> event \<Rightarrow> (bool \<times> error option) \<times> event" where
  "Verify sch cx ev =
     (case InitPub sch \<lparr>PublicKey = None, pkb = []\<rparr> (Pubkey ev) of
        (Some e, keys) \<Rightarrow> ((False, Some e), ev)
      | (None, keys) \<Rightarrow>
         (case Signer_Verify sch keys (ID ev) (Sig ev) of
            (valid, Some e) \<Rightarrow>
              (let eid = GetIDBytes cx ev in
               if eid \<noteq> ID ev then
                 (let ev' = ev\<lparr>ID := eid\<rparr> in
                  case Signer_Verify sch keys (ID ev') (Sig ev') of
                    (valid', Some e') \<Rightarrow> ((valid', Some e'), ev')
                  | (valid', None) \<Rightarrow>
                      ((valid',
                        Some (Err ''event ID incorrect but signature is valid on correct ID'')),
                       ev'))
               else ((valid, Some e), ev))
          | (valid, None) \<Rightarrow> ((valid, None), ev)))"

text \<open>
  A sample instantiation, to run the code on concrete inputs. Hex and decimal are the
  real encodings. The digest is a stand-in for SHA-256 (the last 32 bytes of the
  input in reverse, zero-padded): the functions above only ever compare a digest with a declared
  id. The stand-in signature scheme accepts the 64-byte signature that is the signed
  message followed by the public key. The JSON decoders of events and of requests are
  tables from the frames of interest to what they carry; every other frame is
  malformed.
\<close>

definition hexdigit :: "nat \<Rightarrow> char" where
  "hexdigit n = ''0123456789abcdef'' ! (n mod 16)"

definition hex_enc :: "bytes \<Rightarrow> bytes" where
  "hex_enc b = concat (map (\<lambda>c. [hexdigit (of_char c div 16), hexdigit (of_char c mod 16)]) b)"

definition unhex :: "char \<Rightarrow> nat option" where
  "unhex c =
     (let n = (of_char c :: nat) in
      if 48 \<le> n \<and> n \<le> 57 then Some (n - 48)
      else if 97 \<le> n \<and> n \<le> 102 then Some (n - 87)
      else if 65 \<le> n \<and> n \<le> 70 then Some (n - 55)
      else None)"

fun hex_dec :: "bytes \<Rightarrow> error + bytes" where
  "hex_dec [] = Inr []"
| "hex_dec [c] = Inl (Err ''odd length hex string'')"
| "hex_dec (c # d # r) =
     (case (unhex c, unhex d) of
        (Some h, Some l) \<Rightarrow>
          (case hex_dec r of Inl e \<Rightarrow> Inl e | Inr b \<Rightarrow> Inr (char_of (16 * h + l) # b))
      | _ \<Rightarrow> Inl (Err ''invalid hex digit''))"

fun decimal :: "nat \<Rightarrow> bytes" where
  "decimal n = (if n < 10 then [char_of (48 + n)] else decimal (n div 10) @ [char_of (48 + n mod 10)])"

fun undecimal :: "nat \<Rightarrow> bytes \<Rightarrow> error + nat" where
  "undecimal acc [] = Inr acc"
| "undecimal acc (c # r) =
     (let n = (of_char c :: nat) in
      if 48 \<le> n \<and> n \<le> 57 then undecimal (10 * acc + (n - 48)) r
      else Inl (Err ''not a decimal digit''))"

definition sample_codec :: "(bytes \<times> event) list \<Rightarrow> (bytes \<times> reqenvelope) list \<Rightarrow> codec" where
  "sample_codec wire reqs =
     \<lparr>hex_Enc = hex_enc,
      timestamp_Marshal = (\<lambda>t. decimal (unat t)),
      kind_Marshal = (\<lambda>k. decimal (unat k)),
      tags_Marshal = (\<lambda>ts. ''['' @ concat (map (\<lambda>t. ''['' @ concat (map (\<lambda>x. [CHR 0x22] @ x @ [CHR 0x22]) t) @ '']'') ts) @ '']''),
      text_Quote = (\<lambda>s. [CHR 0x22] @ s @ [CHR 0x22]),
      sha256_Sum256 = (\<lambda>b. take 32 (rev b @ replicate 32 (CHR 0x00))),
      hex_DecBytes = (\<lambda>dst src. case hex_dec src of Inl e \<Rightarrow> Inl e
                                  | Inr b \<Rightarrow> Inr (take (length dst) (b @ drop (length b) dst))),
      hex_DecAppend = (\<lambda>dst src. case hex_dec src of Inl e \<Rightarrow> Inl e | Inr b \<Rightarrow> Inr (dst @ b)),
      ints_Unmarshal = (\<lambda>b. if b = [] then Inl (Err ''no digits'')
                            else case undecimal 0 b of Inl e \<Rightarrow> Inl e | Inr n \<Rightarrow> Inr (word_of_nat n)),
      event_Unmarshal = (\<lambda>req. case map_of wire req of
                                  None \<Rightarrow> Inl (Err ''malformed event'')
                                | Some ev \<Rightarrow> Inr ev),
      req_Unmarshal = (\<lambda>req. case map_of reqs req of
                                None \<Rightarrow> Inl (Err ''malformed request'')
                              | Some env \<Rightarrow> Inr env)\<rparr>"

definition sample_schnorr :: "(bytes, bytes) schnorr" where
  "sample_schnorr =
     \<lparr>ParsePubKey = (\<lambda>b. if length b = 32 then Inr b else Inl (Err ''bad pubkey length'')),
      ParseSignature = (\<lambda>b. if length b = 64 then Inr b else Inl (Err ''bad signature length'')),
      Signature_Verify = (\<lambda>si msg k. si = msg @ k)\<rparr>"

text \<open>
  An event whose declared id (32 bytes \<open>i\<close>) is not the digest of its canonical form,
  signed over that declared id.
\<close>

definition forged_ev :: event where
  "forged_ev =
     \<lparr>ID = replicate 32 (CHR ''i''), Pubkey = replicate 32 (CHR ''p''),
      CreatedAt = 1733739427, Kind = 1, Tags = [], Content = ''hi'',
      Sig = replicate 32 (CHR ''i'') @ replicate 32 (CHR ''p'')\<rparr>"

section \<open>The EVENT handler (pkg/protocol/socketapi/handleEvent.go)\<close>

text \<open>
  Modelled from the spec: the helpers \<^verbatim>\<open>Ok.Invalid\<close>, \<^verbatim>\<open>Ok.Error\<close> and
  \<^verbatim>\<open>Ok.Blocked\<close> are not among the sources. By the spec's error handling design
  each answers the submission with an OK envelope for the event's id whose accepted
  flag is false and whose reason carries the prefix of the error kind
  (\<open>invalid:\<close>, \<open>error:\<close>, \<open>blocked:\<close>).
\<close>

definition Ok_Invalid :: "event \<Rightarrow> bytes \<Rightarrow> envelope" where
  "Ok_Invalid env msg = OkEnvelope (ID env) False (''invalid: '' @ msg)"

definition Ok_Error :: "event \<Rightarrow> bytes \<Rightarrow> envelope" where
  "Ok_Error env msg = OkEnvelope (ID env) False (''error: '' @ msg)"

definition Ok_Blocked :: "event \<Rightarrow> bytes \<Rightarrow> envelope" where
  "Ok_Blocked env msg = OkEnvelope (ID env) False (''blocked: '' @ msg)"

text \<open>
  \<^verbatim>\<open>server.I\<close>: the storage (\<^verbatim>\<open>QueryEvents\<close>, \<^verbatim>\<open>DeleteEvent\<close>), \<^verbatim>\<open>AddEvent\<close>
  and the relay's policy are not among the sources; they are parameters over a store
  state \<open>'st\<close>. \<^verbatim>\<open>AddEvent\<close> is given the event and the authenticated pubkey of the
  connection and returns its verdict, a reason and the store it leaves.
\<close>

record 'st server =
  QueryEvents :: "'st \<Rightarrow> filter \<Rightarrow> error + event list"
  DeleteEvent :: "'st \<Rightarrow> bytes \<Rightarrow> error + 'st"
  AddEvent :: "'st \<Rightarrow> event \<Rightarrow> bytes \<Rightarrow> bool \<times> bytes \<times> 'st"
  AuthRequired :: bool
  PublicReadable :: bool
  OwnersPubkeys :: "bytes list"
  AcceptReq :: "filter list \<Rightarrow> bytes \<Rightarrow> filter list \<times> bool"
  CheckPrivilege :: "bytes \<Rightarrow> event \<Rightarrow> bool"
  BinToNpub :: "bytes \<Rightarrow> error + bytes"

text \<open>
  Modelled from the spec: package \<^verbatim>\<open>kind\<close> is not among the sources. The deletion
  kind is 5; the parameterized-replaceable kinds are 30000 to 39999, the replaceable
  ones 0, 3 and 10000 to 19999, the ephemeral ones 20000 to 29999.
\<close>

definition kind_Deletion :: "16 word" where
  "kind_Deletion = 5"

definition IsParameterizedReplaceable :: "16 word \<Rightarrow> bool" where
  "IsParameterizedReplaceable k \<longleftrightarrow> 30000 \<le> k \<and> k < 40000"

definition IsReplaceable :: "16 word \<Rightarrow> bool" where
  "IsReplaceable k \<longleftrightarrow> k = 0 \<or> k = 3 \<or> (10000 \<le> k \<and> k < 20000)"

definition IsEphemeral :: "16 word \<Rightarrow> bool" where
  "IsEphemeral k \<longleftrightarrow> 20000 \<le> k \<and> k < 30000"

text \<open>
  Modelled from the spec: \<^verbatim>\<open>eventid.NewFromBytes\<close> is not among the sources; an
  event id is 32 bytes, anything else is refused.
\<close>

definition eventid_NewFromBytes :: "bytes \<Rightarrow> error + bytes" where
  "eventid_NewFromBytes b = (if length b = 32 then Inr b else Inl (Err ''invalid event id length''))"

text \<open>\<^verbatim>\<open>bytes.Split\<close> of the Go library, for a one-byte separator.\<close>

fun bytes_Split :: "bytes \<Rightarrow> char \<Rightarrow> bytes list" where
  "bytes_Split [] sep = [[]]"
| "bytes_Split (c # cs) sep =
     (if c = sep then [] # bytes_Split cs sep
      else (case bytes_Split cs sep of [] \<Rightarrow> [[c]] | x # xs \<Rightarrow> (c # x) # xs))"

text \<open>
  A handler leaves a loop body either by \<^verbatim>\<open>return\<close> or by going on to the next
  round (\<^verbatim>\<open>continue\<close>, or the end of the body).
\<close>

datatype 'a flow = Return 'a | Continue 'a

text \<open>
  The loop over the targets found for an \<^verbatim>\<open>a\<close> tag (lines 247 to 296). The reply
  for a target that is itself a deletion is not followed by a \<^verbatim>\<open>return\<close>.
\<close>

fun delete_targets ::
  "'st server \<Rightarrow> event \<Rightarrow> 'st \<times> listener \<Rightarrow> event list \<Rightarrow> ('st \<times> listener) flow" where
  "delete_targets srv env (st, l) [] = Continue (st, l)"
| "delete_targets srv env (st, l) (target # res) =
     (case (if Kind target = kind_Deletion
            then Write l (Ok_Error env (''cannot delete delete event '' @ ID env))
            else Inr l) of
        Inl err \<Rightarrow> Return (st, l)
      | Inr l1 \<Rightarrow>
         if sint (CreatedAt env) < sint (CreatedAt target)
         then delete_targets srv env (st, l1) res
         else if Pubkey target \<noteq> Pubkey env
         then Return (st, reply l1 (Ok_Error env ''only author can delete event''))
         else
           (case eventid_NewFromBytes (ID target) of
              Inl err \<Rightarrow> Return (st, reply l1 (Ok_Error env ''failed to create event ID''))
            | Inr eid \<Rightarrow>
               (case DeleteEvent srv st eid of
                  Inl err \<Rightarrow>
                    Return (st, reply l1 (Ok_Error env ''failed to delete target event''))
                | Inr st' \<Rightarrow> delete_targets srv env (st', l1) res)))"

text \<open>The \<^verbatim>\<open>e\<close> case of the switch (lines 95 to 158).\<close>

definition delete_e_tag ::
  "codec \<Rightarrow> 'st server \<Rightarrow> event \<Rightarrow> 'st \<times> listener \<Rightarrow> bytes list \<Rightarrow> ('st \<times> listener) flow" where
  "delete_e_tag cx srv env s t =
     (case s of (st, l) \<Rightarrow>
      case hex_DecBytes cx (replicate 32 (CHR 0x00)) (t ! 1) of
        Inl err \<Rightarrow> Return (st, l)
      | Inr eventId \<Rightarrow>
         (case QueryEvents srv st (filter_New\<lparr>Ids := Ids filter_New @ [eventId]\<rparr>) of
            Inl err \<Rightarrow>
              Return (st, reply l (Ok_Error env ''failed to query for referenced event''))
          | Inr [] \<Rightarrow> Continue (st, l)
          | Inr (referencedEvent # others) \<Rightarrow>
             if Pubkey referencedEvent \<noteq> Pubkey env
             then Return (st, reply l (Ok_Blocked env
                    ''blocked: cannot delete events from other authors''))
             else
               (case eventid_NewFromBytes eventId of
                  Inl err \<Rightarrow> Return (st, reply l (Ok_Error env ''failed to create event ID''))
                | Inr eid \<Rightarrow>
                   (case DeleteEvent srv st eid of
                      Inl err \<Rightarrow>
                        Return (st, reply l (Ok_Error env ''failed to delete referenced event''))
                    | Inr st' \<Rightarrow> Continue (st', l)))))"

text \<open>
  The \<^verbatim>\<open>a\<close> case of the switch (lines 159 to 234), followed by what the loop body
  does with the targets found (lines 237 to 246): none, go on; otherwise keep those
  whose \<^verbatim>\<open>CreatedAt.U64()\<close> is at most the deletion's and run the loop over them.
\<close>

definition delete_a_tag ::
  "codec \<Rightarrow> 'st server \<Rightarrow> event \<Rightarrow> 'st \<times> listener \<Rightarrow> bytes list \<Rightarrow> ('st \<times> listener) flow" where
  "delete_a_tag cx srv env s t =
     (case s of (st, l) \<Rightarrow>
      case bytes_Split (t ! 1) (CHR '':'') of
        [split0, split1, split2] \<Rightarrow>
          if split2 = ID env
          then Return (st, reply l (Ok_Blocked env ''deletion event cannot reference its own ID''))
          else
            (case hex_DecAppend cx [] split1 of
               Inl err \<Rightarrow>
                 Return (st, reply l (Ok_Invalid env
                   (''delete event a tag pubkey value invalid: '' @ t ! 1)))
             | Inr pk \<Rightarrow>
                (case ints_Unmarshal cx split0 of
                   Inl err \<Rightarrow>
                     Return (st, reply l (Ok_Invalid env
                       (''delete event a tag kind value invalid: '' @ t ! 1)))
                 | Inr kin \<Rightarrow>
                    (let kk = (ucast kin :: 16 word) in
                     if kk = kind_Deletion
                     then Return (st, reply l (Ok_Blocked env
                            ''delete event kind may not be deleted''))
                     else if \<not> IsParameterizedReplaceable kk
                     then Return (st, reply l (Ok_Error env
                            ''delete tags with a tags containing non-parameterized-replaceable events can't be processed''))
                     else if pk \<noteq> Pubkey env
                     then Return (st, reply l (Ok_Blocked env
                            ''can't delete other users' events (delete by a tag)''))
                     else
                       (case QueryEvents srv st
                               (filter_New\<lparr>Kinds := [kk],
                                  Authors := Authors filter_New @ [pk],
                                  Tags_f := Tags_f filter_New @ [[''#d'', split2]]\<rparr>) of
                          Inl err \<Rightarrow>
                            Return (st, reply l (Ok_Error env ''failed to query for target event''))
                        | Inr res \<Rightarrow>
                           if length res < 1 then Continue (st, l)
                           else delete_targets srv env (st, l)
                                  [v \<leftarrow> res. unat (CreatedAt v) \<le> unat (CreatedAt env)]))))
      | _ \<Rightarrow> Continue (st, l))"

text \<open>
  One round of the loop over the tags of a deletion (lines 91 to 298). A tag with fewer
  than two elements, or with another key, finds no targets.
\<close>

definition delete_tag ::
  "codec \<Rightarrow> 'st server \<Rightarrow> event \<Rightarrow> 'st \<times> listener \<Rightarrow> bytes list \<Rightarrow> ('st \<times> listener) flow" where
  "delete_tag cx srv env s t =
     (if 2 \<le> length t then
        if t ! 0 = ''e'' then delete_e_tag cx srv env s t
        else if t ! 0 = ''a'' then delete_a_tag cx srv env s t
        else Continue s
      else Continue s)"

fun delete_tags ::
  "codec \<Rightarrow> 'st server \<Rightarrow> event \<Rightarrow> 'st \<times> listener \<Rightarrow> bytes list list \<Rightarrow> ('st \<times> listener) flow" where
  "delete_tags cx srv env s [] = Continue s"
| "delete_tags cx srv env s (t # ts) =
     (case delete_tag cx srv env s t of
        Return s' \<Rightarrow> Return s'
      | Continue s' \<Rightarrow> delete_tags cx srv env s' ts)"

text \<open>
  The validation at the head of the handler (lines 66 to 88): the id check, then the
  signature check. When \<^verbatim>\<open>Verify\<close> returns an error the handler replies and,
  unless that write fails, goes on with the event; it returns only when \<^verbatim>\<open>Verify\<close>
  returns no error and reports the signature invalid. What is passed on is the event as
  \<^verbatim>\<open>Verify\<close> left it and the flag \<^verbatim>\<open>ok\<close>.
\<close>

definition validate ::
  "('pk, 'sg) schnorr \<Rightarrow> codec \<Rightarrow> listener \<Rightarrow> event \<Rightarrow> listener + (listener \<times> event \<times> bool)" where
  "validate sch cx l env0 =
     (if GetIDBytes cx env0 \<noteq> ID env0
      then Inl (reply l (Ok_Invalid env0 ''event id is computed incorrectly''))
      else
        (case Verify sch cx env0 of
           ((ok, Some err), env) \<Rightarrow>
             (case Write l (Ok_Error env ''failed to verify signature'') of
                Inl werr \<Rightarrow> Inl l
              | Inr l1 \<Rightarrow> Inr (l1, env, ok))
         | ((ok, None), env) \<Rightarrow>
             if \<not> ok then Inl (reply l (Ok_Error env ''signature is invalid''))
             else Inr (l, env, ok)))"

text \<open>
  The branch for deletions (lines 89 to 326). After the loop it writes an OK envelope
  carrying the flag of the signature check. The test whether the event had been deleted
  before (lines 305 to 325) stands inside this branch, as in the source.
\<close>

definition deletion_branch ::
  "codec \<Rightarrow> 'st server \<Rightarrow> event \<Rightarrow> bool \<Rightarrow> 'st \<times> listener \<Rightarrow> ('st \<times> listener) flow" where
  "deletion_branch cx srv env ok s =
     (case delete_tags cx srv env s (Tags env) of
        Return s' \<Rightarrow> Return s'
      | Continue (st, l) \<Rightarrow>
         (case Write l (OkEnvelope (ID env) ok []) of
            Inl err \<Rightarrow> Return (st, l)
          | Inr l1 \<Rightarrow>
             if Kind env \<noteq> kind_Deletion then
               (case QueryEvents srv st
                       (filter_New\<lparr>Kinds := [kind_Deletion],
                          Tags_f := Tags_f filter_New @ [[''e'', ID env]]\<rparr>) of
                  Inr (d # ds) \<Rightarrow>
                    Return (st, reply l1 (Ok_Blocked env
                      ''event was deleted, not storing it again''))
                | _ \<Rightarrow> Continue (st, l1))
             else Continue (st, l1)))"

text \<open>
  \<^verbatim>\<open>HandleEvent\<close>. The state is the store and the listener of the connection; a
  frame that does not parse is dropped without a reply. The reason \<^verbatim>\<open>AddEvent\<close>
  returns is logged only: the closing OK envelope carries none.
\<close>

definition HandleEvent ::
  "('pk, 'sg) schnorr \<Rightarrow> codec \<Rightarrow> 'st server \<Rightarrow> 'st \<times> listener \<Rightarrow> bytes \<Rightarrow> 'st \<times> listener" where
  "HandleEvent sch cx srv s req =
     (case s of (st, l) \<Rightarrow>
      case event_Unmarshal cx req of
        Inl err \<Rightarrow> (st, l)
      | Inr env0 \<Rightarrow>
         (case validate sch cx l env0 of
            Inl l' \<Rightarrow> (st, l')
          | Inr (l1, env, ok) \<Rightarrow>
             (case (if Kind env = kind_Deletion
                    then deletion_branch cx srv env ok (st, l1)
                    else Continue (st, l1)) of
                Return s' \<Rightarrow> s'
              | Continue (st2, l2) \<Rightarrow>
                 (case AddEvent srv st2 env (AuthedPubkey l2) of
                    (ok', reason, st3) \<Rightarrow> (st3, reply l2 (OkEnvelope (ID env) ok' []))))))"

section \<open>The store, from the spec\<close>

text \<open>
  Modelled from the spec: the code of the store (\<^verbatim>\<open>SaveEvent\<close>, \<^verbatim>\<open>QueryEvents\<close>,
  \<^verbatim>\<open>DeleteEvent\<close> of package \<^verbatim>\<open>database\<close>) and \<^verbatim>\<open>filter.F.Match\<close> are not
  among the sources; this section follows sections 3 and 4.3 of the spec. The store is
  the list of its event records in the order of their serials (the order in which they
  were persisted). The secondary indexes only pick candidates that the query path
  re-checks against the filter, and the pointers \<open>S\<close>, \<open>R\<close> and \<open>RP\<close> name a
  record of the list: a lookup under a key is a search of the list for the record with
  that key.

  A filter option that is empty admits every event; \<open>ids\<close> and \<open>authors\<close> are sets
  of prefixes; \<open>since\<close> and \<open>until\<close> are inclusive bounds; a tag predicate is a key
  (\<open>#\<close> and the letter) followed by the acceptable values, and admits an event that
  has a tag with that letter and one of the values.
\<close>

type_synonym store = "event list"

definition tag_letter :: "bytes \<Rightarrow> bytes" where
  "tag_letter k = (case k of [] \<Rightarrow> [] | c # r \<Rightarrow> if c = CHR ''#'' then r else k)"

definition admits_tag :: "event \<Rightarrow> bytes list \<Rightarrow> bool" where
  "admits_tag ev p =
     (case p of
        [] \<Rightarrow> True
      | k # vals \<Rightarrow>
          vals = [] \<or>
          list_ex (\<lambda>t. 2 \<le> length t \<and> t ! 0 = tag_letter k \<and> t ! 1 \<in> set vals) (Tags ev))"

definition Match :: "filter \<Rightarrow> event \<Rightarrow> bool" where
  "Match f ev \<longleftrightarrow>
     (Ids f = [] \<or> list_ex (\<lambda>p. take (length p) (ID ev) = p) (Ids f)) \<and>
     (Authors f = [] \<or> list_ex (\<lambda>p. take (length p) (Pubkey ev) = p) (Authors f)) \<and>
     (Kinds f = [] \<or> Kind ev \<in> set (Kinds f)) \<and>
     (case Since f of None \<Rightarrow> True | Some s \<Rightarrow> sint s \<le> sint (CreatedAt ev)) \<and>
     (case Until f of None \<Rightarrow> True | Some u \<Rightarrow> sint (CreatedAt ev) \<le> sint u) \<and>
     list_all (admits_tag ev) (Tags_f f)"

text \<open>The filters of one REQ form a disjunction.\<close>

definition filters_Match :: "filter list \<Rightarrow> event \<Rightarrow> bool" where
  "filters_Match fs ev = list_ex (\<lambda>f. Match f ev) fs"

text \<open>
  The query path: the matching records newest first, cut at the limit. The path also
  skips an event named by a deletion marker and a replaceable loser; the handler of
  the sources writes no marker (it calls \<^verbatim>\<open>DeleteEvent\<close>), and \<open>save\<close> removes a
  loser when it is replaced, so in this model neither skip has a record to act on.
\<close>

definition query :: "store \<Rightarrow> filter \<Rightarrow> event list" where
  "query st f =
     (let hits = sort_key (\<lambda>e. - sint (CreatedAt e)) [e \<leftarrow> st. Match f e]
      in case Limit f of None \<Rightarrow> hits | Some n \<Rightarrow> take (unat n) hits)"

text \<open>\<open>delete_event(id)\<close> removes the record of that id and everything that names it.\<close>

definition delete_event :: "store \<Rightarrow> bytes \<Rightarrow> store" where
  "delete_event st i = [e \<leftarrow> st. ID e \<noteq> i]"

text \<open>
  The write path. The key of a replaceable event is \<open>R || pubkey_hash8 || kind\<close>, that
  of a parameterized-replaceable one \<open>RP || pubkey_hash8 || kind || dtag_hash8\<close>, with
  \<open>pubkey_hash8\<close> the first 8 bytes of the pubkey and \<open>dtag_hash8\<close> an 8-byte hash,
  left open by the spec (the parameter \<open>h8\<close>), of the first \<open>d\<close>-tag value (none is
  the empty value).
\<close>

datatype rkey = Rkey bytes "16 word" | RPkey bytes "16 word" bytes

definition pubkey_hash8 :: "bytes \<Rightarrow> bytes" where
  "pubkey_hash8 pk = take 8 pk"

definition d_value :: "event \<Rightarrow> bytes" where
  "d_value ev =
     (case [t \<leftarrow> Tags ev. 1 \<le> length t \<and> t ! 0 = ''d''] of
        [] \<Rightarrow> []
      | t # ts \<Rightarrow> if 2 \<le> length t then t ! 1 else [])"

definition replace_key :: "(bytes \<Rightarrow> bytes) \<Rightarrow> event \<Rightarrow> rkey option" where
  "replace_key h8 ev =
     (if IsReplaceable (Kind ev) then Some (Rkey (pubkey_hash8 (Pubkey ev)) (Kind ev))
      else if IsParameterizedReplaceable (Kind ev)
      then Some (RPkey (pubkey_hash8 (Pubkey ev)) (Kind ev) (h8 (d_value ev)))
      else None)"

text \<open>
  Step 4 of the write path names the cases of an existing winner with a greater and
  with a smaller \<open>created_at\<close>; for equal ones section 3 gives the tie-break: the
  lexicographically greater id wins.
\<close>

definition outranks :: "event \<Rightarrow> event \<Rightarrow> bool" where
  "outranks w ev \<longleftrightarrow>
     sint (CreatedAt ev) < sint (CreatedAt w) \<or> (CreatedAt w = CreatedAt ev \<and> ID ev < ID w)"

datatype verdict = accepted | duplicate | older | ephemeral_ok

definition save :: "(bytes \<Rightarrow> bytes) \<Rightarrow> store \<Rightarrow> event \<Rightarrow> verdict \<times> store" where
  "save h8 st ev =
     (if ID ev \<in> set (map ID st) then (duplicate, st)
      else if IsEphemeral (Kind ev) then (ephemeral_ok, st)
      else
        (case replace_key h8 ev of
           None \<Rightarrow> (accepted, st @ [ev])
         | Some k \<Rightarrow>
            (case [e \<leftarrow> st. replace_key h8 e = Some k] of
               [] \<Rightarrow> (accepted, st @ [ev])
             | w # ws \<Rightarrow>
                 if outranks w ev then (older, st)
                 else (accepted, delete_event st (ID w) @ [ev]))))"

text \<open>A sequence of save operations, from a given store.\<close>

definition saves :: "(bytes \<Rightarrow> bytes) \<Rightarrow> store \<Rightarrow> event list \<Rightarrow> store" where
  "saves h8 st evs = foldl (\<lambda>s ev. snd (save h8 s ev)) st evs"

text \<open>
  \<^verbatim>\<open>AcceptEvent\<close> (pkg/app/relay/accept-event.go): an event is refused only when
  auth is required and the connection has no authenticated pubkey.
\<close>

definition AcceptEvent :: "bool \<Rightarrow> bytes \<Rightarrow> bool" where
  "AcceptEvent auth_required authedPubkey =
     (if auth_required \<and> length authedPubkey = 0 then False else True)"

text \<open>
  The server over this store. Modelled from the spec: \<^verbatim>\<open>AddEvent\<close> is not among the
  sources; by step 7 of the ingest pipeline it persists the event through the store
  and accepts it when the store does (an ephemeral event is accepted without being
  persisted). The other policies are the open relay: no auth, every filter accepted,
  every event privileged.
\<close>

definition store_server :: "(bytes \<Rightarrow> bytes) \<Rightarrow> store server" where
  "store_server h8 =
     \<lparr>QueryEvents = (\<lambda>st f. Inr (query st f)),
      DeleteEvent = (\<lambda>st i. Inr (delete_event st i)),
      AddEvent = (\<lambda>st ev authed.
         if \<not> AcceptEvent False authed then (False, ''auth-required: '', st)
         else (case save h8 st ev of
                 (accepted, st') \<Rightarrow> (True, [], st')
               | (ephemeral_ok, st') \<Rightarrow> (True, [], st')
               | (duplicate, st') \<Rightarrow> (False, ''duplicate: '', st')
               | (older, st') \<Rightarrow> (False, ''blocked: older'', st'))),
      AuthRequired = False,
      PublicReadable = True,
      OwnersPubkeys = [],
      AcceptReq = (\<lambda>fs authed. (fs, True)),
      CheckPrivilege = (\<lambda>authed ev. True),
      BinToNpub = (\<lambda>pk. Inr pk)\<rparr>"

text \<open>A server whose storage is this store; its other parts stay as they are.\<close>

definition over_store :: "store server \<Rightarrow> store server" where
  "over_store srv =
     srv\<lparr>QueryEvents := (\<lambda>st f. Inr (query st f)),
         DeleteEvent := (\<lambda>st i. Inr (delete_event st i))\<rparr>"

section \<open>The REQ handler and the publisher (handleReq.go, handleEvent.go)\<close>

text \<open>
  \<^verbatim>\<open>NewResultWith\<close> (eventenvelope.go): a subscription id longer than 64 bytes is
  refused.
\<close>

definition NewResultWith :: "bytes \<Rightarrow> event \<Rightarrow> error + envelope" where
  "NewResultWith s ev =
     (if 64 < length s then Inl (Err ''subscription id must be length > 0 and <= 64'')
      else Inr (EventResult s ev))"

text \<open>
  A connection is named by its pointer \<^verbatim>\<open>*ws.Listener\<close>. A Go map is kept as an
  association list with distinct keys; \<^verbatim>\<open>m[k] = v\<close> is \<^const>\<open>AList.update\<close>, which
  overwrites in place or adds the new key at the end, so the list also remembers the
  order of insertion. The publisher's \<^verbatim>\<open>Map\<close> takes a connection to its
  subscriptions, a subscription id to its filters.
\<close>

type_synonym ptr = nat

type_synonym subscriptions = "(bytes \<times> filter list) list"

type_synonym Map = "(ptr \<times> subscriptions) list"

text \<open>The message \<^verbatim>\<open>W\<close> (without the receiver channel, which nothing reads).\<close>

record W =
  Listener :: ptr
  Cancel :: bool
  Id :: bytes
  Filters_w :: "filter list"

definition removeSubscriberId :: "Map \<Rightarrow> ptr \<Rightarrow> bytes \<Rightarrow> Map" where
  "removeSubscriberId p ws i =
     (case map_of p ws of
        None \<Rightarrow> p
      | Some subs \<Rightarrow>
          (let subs' = AList.delete i subs
           in if length subs' = 0 then AList.delete ws p else AList.update ws subs' p))"

definition removeSubscriber :: "Map \<Rightarrow> ptr \<Rightarrow> Map" where
  "removeSubscriber p ws = AList.delete ws p"

definition Receive :: "Map \<Rightarrow> W \<Rightarrow> Map" where
  "Receive p m =
     (if Cancel m then
        (if Id m = [] then removeSubscriber p (Listener m)
         else removeSubscriberId p (Listener m) (Id m))
      else
        (case map_of p (Listener m) of
           None \<Rightarrow> AList.update (Listener m) [(Id m, Filters_w m)] p
         | Some subs \<Rightarrow>
             AList.update (Listener m) (AList.update (Id m) (Filters_w m) subs) p))"

text \<open>
  \<^verbatim>\<open>for k, v := range m\<close> visits every key of the map once, in an order the Go
  runtime picks anew for each loop: the order is an argument of the loop, and any
  list that enumerates the keys without repetition is one the runtime may pick.
\<close>

definition range_order :: "('k \<times> 'v) list \<Rightarrow> 'k list \<Rightarrow> bool" where
  "range_order m ks \<longleftrightarrow> distinct ks \<and> set ks = fst ` set m"

text \<open>
  The inner loop of \<^verbatim>\<open>Deliver\<close> over the subscriptions of one connection, visited in
  the order \<open>ids\<close>: a subscription that does not match, an envelope that cannot be made
  and a write that fails are all skipped. \<^verbatim>\<open>filters.T.Match\<close> is the match of the
  spec (\<^const>\<open>filters_Match\<close>).
\<close>

fun deliver_subs :: "event \<Rightarrow> subscriptions \<Rightarrow> listener \<Rightarrow> bytes list \<Rightarrow> listener" where
  "deliver_subs ev subs w [] = w"
| "deliver_subs ev subs w (i # ids) =
     (case map_of subs i of
        None \<Rightarrow> deliver_subs ev subs w ids
      | Some subscriber \<Rightarrow>
          if \<not> filters_Match subscriber ev then deliver_subs ev subs w ids
          else
            (case NewResultWith i ev of
               Inl err \<Rightarrow> deliver_subs ev subs w ids
             | Inr res \<Rightarrow> deliver_subs ev subs (reply w res) ids))"

text \<open>
  The outer loop over the connections, visited in the order \<open>ws\<close>; \<open>order_of\<close> gives
  the order picked for the inner loop of each connection. The listeners live in a heap
  from pointers to listeners.
\<close>

fun deliver_conns ::
  "Map \<Rightarrow> event \<Rightarrow> (ptr \<Rightarrow> bytes list) \<Rightarrow> (ptr \<Rightarrow> listener) \<Rightarrow> ptr list \<Rightarrow> (ptr \<Rightarrow> listener)" where
  "deliver_conns p ev order_of heap [] = heap"
| "deliver_conns p ev order_of heap (w # ws) =
     (case map_of p w of
        None \<Rightarrow> deliver_conns p ev order_of heap ws
      | Some subs \<Rightarrow>
          deliver_conns p ev order_of
            (heap(w := deliver_subs ev subs (heap w) (order_of w))) ws)"

definition Deliver ::
  "Map \<Rightarrow> event \<Rightarrow> ptr list \<Rightarrow> (ptr \<Rightarrow> bytes list) \<Rightarrow> (ptr \<Rightarrow> listener) \<Rightarrow> (ptr \<Rightarrow> listener)" where
  "Deliver p ev ws order_of heap = deliver_conns p ev order_of heap ws"

text \<open>
  \<^verbatim>\<open>HandleReq\<close> (handleReq.go). The list of owners' npubs for the notice (lines 81
  to 92).
\<close>

fun npubList :: "'st server \<Rightarrow> bytes list \<Rightarrow> bytes" where
  "npubList srv [] = []"
| "npubList srv (pk # opks) =
     (case BinToNpub srv pk of
        Inl err \<Rightarrow> npubList srv opks
      | Inr npub \<Rightarrow> npub @ (if opks \<noteq> [] then '', '' else []) @ npubList srv opks)"

text \<open>
  The auth gate (lines 66 to 104), entered when auth is required and the connection is
  not authenticated: the challenge, a CLOSED envelope, and, unless the relay is
  publicly readable, a notice and the end of the request.
\<close>

definition auth_gate :: "'st server \<Rightarrow> reqenvelope \<Rightarrow> listener \<Rightarrow> listener flow" where
  "auth_gate srv env l =
     (let l0 = l\<lparr>auth_requested := True\<rparr> in
      case Write l0 (AuthChallenge (Challenge l0)) of
        Inl err \<Rightarrow> Return l0
      | Inr l1 \<Rightarrow>
         (case Write l1 (ClosedEnvelope (Subscription env) ''auth-required: auth enabled'') of
            Inl err \<Rightarrow> Return l1
          | Inr l2 \<Rightarrow>
             if \<not> PublicReadable srv then
               Return (reply l2 (NoticeEnvelope
                 (''relay whitelists read access to users within the second '' @
                  ''degree of the follow list graph of '' @
                  npubList srv (OwnersPubkeys srv))))
             else Continue l2))"

text \<open>Writing out the events of one query (lines 150 to 161).\<close>

fun write_events :: "bytes \<Rightarrow> listener \<Rightarrow> event list \<Rightarrow> listener flow" where
  "write_events sub l [] = Continue l"
| "write_events sub l (ev # evs) =
     (case NewResultWith sub ev of
        Inl err \<Rightarrow> Return l
      | Inr res \<Rightarrow>
         (case Write l res of
            Inl err \<Rightarrow> Return l
          | Inr l' \<Rightarrow> write_events sub l' evs))"

text \<open>
  The loop over the allowed filters (lines 119 to 162). The variable \<^verbatim>\<open>events\<close> is
  carried along: it holds the result of the last query that ran (after a failed query,
  the nil slice returned with the error).
\<close>

fun req_filters ::
  "'st server \<Rightarrow> 'st \<Rightarrow> bytes \<Rightarrow> listener \<Rightarrow> event list \<Rightarrow> filter list \<Rightarrow>
   (listener \<times> event list) flow" where
  "req_filters srv st sub l events [] = Continue (l, events)"
| "req_filters srv st sub l events (f # fs) =
     (if (case Limit f of None \<Rightarrow> False | Some n \<Rightarrow> n = 0)
      then req_filters srv st sub l events fs
      else
        (case QueryEvents srv st f of
           Inl err \<Rightarrow>
             if err = ErrDBClosed then Return (l, [])
             else req_filters srv st sub l [] fs
         | Inr found \<Rightarrow>
             (let events' =
                    (if AuthRequired srv
                     then [ev \<leftarrow> found. CheckPrivilege srv (AuthedPubkey l) ev]
                     else found)
              in case write_events sub l events' of
                   Return l' \<Rightarrow> Return (l', events')
                 | Continue l' \<Rightarrow> req_filters srv st sub l' events' fs)))"

text \<open>
  The loop that decides whether the subscription is cancelled (lines 168 to 185 of
  handleReq.go; lines 93 to 110 of the variant of the handler without auth in
  src/unnamed/part_005 are the same text). \<^verbatim>\<open>int(*f.Limit)\<close> reads the \<^verbatim>\<open>uint\<close> as
  an \<^verbatim>\<open>int\<close>.
\<close>

fun cancel_loop :: "event list \<Rightarrow> filter list \<Rightarrow> bool" where
  "cancel_loop events [] = True"
| "cancel_loop events (f # fs) =
     (if length (Ids f) < 1 then False
      else if (case Limit f of
                 None \<Rightarrow> False
               | Some n \<Rightarrow> int (length events) < sint n) then False
      else cancel_loop events fs)"

text \<open>
  The end of the handler (lines 163 to 202): EOSE, then either the registration of the
  filters of the request with the publisher, or a CLOSED envelope.
\<close>

definition finish_req ::
  "ptr \<Rightarrow> reqenvelope \<Rightarrow> filter list \<Rightarrow> event list \<Rightarrow> listener \<times> Map \<Rightarrow> listener \<times> Map" where
  "finish_req a env allowed events s =
     (case s of (l, p) \<Rightarrow>
      case Write l (EoseEnvelope (Subscription env)) of
        Inl err \<Rightarrow> (l, p)
      | Inr l1 \<Rightarrow>
         if \<not> cancel_loop events allowed
         then (l1, Receive p \<lparr>Listener = a, Cancel = False, Id = Subscription env,
                               Filters_w = Filters env\<rparr>)
         else (reply l1 (ClosedEnvelope (Subscription env) []), p))"

text \<open>
  \<^verbatim>\<open>HandleReq\<close> for the connection \<open>a\<close>, on its listener and the publisher's map. The
  first component of the result is the error the returned notice is made of, when the
  request does not parse.
\<close>

definition HandleReq ::
  "codec \<Rightarrow> 'st server \<Rightarrow> 'st \<Rightarrow> ptr \<Rightarrow> listener \<times> Map \<Rightarrow> bytes \<Rightarrow>
   error option \<times> listener \<times> Map" where
  "HandleReq cx srv st a s req =
     (case s of (l, p) \<Rightarrow>
      case req_Unmarshal cx req of
        Inl err \<Rightarrow> (Some err, l, p)
      | Inr env \<Rightarrow>
         (case (if AuthRequired srv \<and> \<not> IsAuthed l then auth_gate srv env l
                else Continue l) of
            Return l' \<Rightarrow> (None, l', p)
          | Continue l1 \<Rightarrow>
             (case AcceptReq srv (Filters env) (AuthedPubkey l1) of
                (allowed, accept) \<Rightarrow>
                  if \<not> accept
                  then (None,
                        reply l1 (ClosedEnvelope (Subscription env)
                                    ''filters aren't permitted for client''), p)
                  else
                    (case req_filters srv st (Subscription env) l1 [] allowed of
                       Return (l2, events) \<Rightarrow> (None, l2, p)
                     | Continue (l2, events) \<Rightarrow>
                         (case finish_req a env allowed events (l2, p) of
                            (l3, p') \<Rightarrow> (None, l3, p'))))))"

section \<open>Sample events and connections\<close>

text \<open>
  \<open>seal\<close> completes an event for the sample instantiation: the id is the digest of
  the canonical form, the signature the one the stand-in scheme accepts. Two authors,
  a note of each, a parameterized-replaceable event, and deletions by the first
  author: of the own note (dated before it), of the other author's note, of the other
  author's note after a tag that is not hex, and of the coordinate of the
  parameterized-replaceable event (dated before it).
\<close>

definition seal :: "event \<Rightarrow> event" where
  "seal ev = (let i = GetIDBytes (sample_codec [] []) ev in ev\<lparr>ID := i, Sig := i @ Pubkey ev\<rparr>)"

definition P1 :: bytes where
  "P1 = replicate 32 (CHR ''p'')"

definition P2 :: bytes where
  "P2 = replicate 32 (CHR ''q'')"

definition own_note :: event where
  "own_note = seal \<lparr>ID = [], Pubkey = P1, CreatedAt = 20, Kind = 1, Tags = [],
                     Content = ''hello'', Sig = []\<rparr>"

definition alien_note :: event where
  "alien_note = seal \<lparr>ID = [], Pubkey = P2, CreatedAt = 20, Kind = 1, Tags = [],
                       Content = ''other'', Sig = []\<rparr>"

definition param_ev :: event where
  "param_ev = seal \<lparr>ID = [], Pubkey = P1, CreatedAt = 20, Kind = 30000,
                     Tags = [[''d'', ''k'']], Content = ''param'', Sig = []\<rparr>"

definition del_own :: event where
  "del_own = seal \<lparr>ID = [], Pubkey = P1, CreatedAt = 10, Kind = 5,
                    Tags = [[''e'', hex_enc (ID own_note)]], Content = ''del'', Sig = []\<rparr>"

definition del_alien :: event where
  "del_alien = seal \<lparr>ID = [], Pubkey = P1, CreatedAt = 30, Kind = 5,
                      Tags = [[''e'', hex_enc (ID alien_note)]], Content = ''del'', Sig = []\<rparr>"

definition del_alien_late :: event where
  "del_alien_late = seal \<lparr>ID = [], Pubkey = P1, CreatedAt = 30, Kind = 5,
                           Tags = [[''e'', ''zz''], [''e'', hex_enc (ID alien_note)]],
                           Content = ''del'', Sig = []\<rparr>"

definition del_param :: event where
  "del_param = seal \<lparr>ID = [], Pubkey = P1, CreatedAt = 10, Kind = 5,
                      Tags = [[''a'', ''30000:'' @ hex_enc P1 @ '':k'']],
                      Content = ''del'', Sig = []\<rparr>"

text \<open>The decoder knows one frame, carrying the event at hand.\<close>

definition frame_of :: "event \<Rightarrow> codec" where
  "frame_of ev = sample_codec [(''EVENT'', ev)] []"

definition request_of :: "reqenvelope \<Rightarrow> codec" where
  "request_of env = sample_codec [] [(''REQ'', env)]"

text \<open>A fresh connection that takes ten more writes.\<close>

definition l0 :: listener where
  "l0 = \<lparr>frames = [], credit = 10, IsAuthed = False, AuthedPubkey = [], Challenge = ''c'',
         auth_requested = False\<rparr>"

section \<open>Properties of the binary record\<close>

declare put_uvarint.simps [simp del]

lemma get_put_uvarint:
  "get_uvarint i v (put_uvarint n @ r) = Inr (v + n * 2 ^ (7 * i), r)"
proof (induction n arbitrary: i v rule: put_uvarint.induct)
  case (1 n)
  show ?case
  proof (cases "n < 128")
    case True
    then show ?thesis by (subst put_uvarint.simps) simp
  next
    case False
    have m: "(n mod 128 + 128) mod 256 = n mod 128 + 128"
      by (simp add: mod_less)
    have step: "get_uvarint i v (put_uvarint n @ r) =
          get_uvarint (i + 1) (v + (n mod 128) * 2 ^ (7 * i)) (put_uvarint (n div 128) @ r)"
      using False by (subst put_uvarint.simps) (simp add: m)
    have "(n div 128) * 2 ^ (7 * (i + 1)) = (n div 128 * 128) * (2::nat) ^ (7 * i)"
      by (simp add: power_add algebra_simps)
    then have "(n mod 128) * 2 ^ (7 * i) + (n div 128) * 2 ^ (7 * (i + 1)) = n * 2 ^ (7 * i)"
      by (metis add.commute distrib_right div_mult_mod_eq)
    then show ?thesis
      using 1 [OF False, of "i + 1" "v + (n mod 128) * 2 ^ (7 * i)"] step
      by (simp add: add.assoc)
  qed
qed

lemma Decode_Encode: "varint_Decode (varint_Encode w @ r) = Inr (w, r)"
  by (simp add: varint_Decode_def varint_Encode_def get_put_uvarint)

lemma Read_exact: "Read (length x) (x @ r) = Inr (x, r)"
  by (auto simp: Read_def)

lemma Read_exact': "n = length x \<Longrightarrow> Read n (x @ r) = Inr (x, r)"
  by (simp add: Read_exact)

lemma unat_len64: "n < 2 ^ 64 \<Longrightarrow> unat (word_of_nat n :: 64 word) = n"
  by (simp add: unat_of_nat)

lemma read_fields_enc:
  "\<forall>y \<in> set x. length y < 2 ^ 64 \<Longrightarrow>
   read_fields (length x) t
     (concat (map (\<lambda>y. varint_Encode (word_of_nat (length y)) @ y) x) @ r) = Inr (t @ x, r)"
proof (induction x arbitrary: t)
  case Nil
  then show ?case by simp
next
  case (Cons y x)
  then show ?case
    by (simp add: Decode_Encode unat_len64 Read_exact)
qed

lemma read_tags_enc:
  "\<forall>x \<in> set ts. length x < 2 ^ 64 \<and> (\<forall>y \<in> set x. length y < 2 ^ 64) \<Longrightarrow>
   read_tags (length ts) acc
     (concat (map (\<lambda>x. varint_Encode (word_of_nat (length x)) @
                      concat (map (\<lambda>y. varint_Encode (word_of_nat (length y)) @ y) x)) ts) @ r)
   = Inr (acc @ ts, r)"
proof (induction ts arbitrary: acc)
  case Nil
  then show ?case by simp
next
  case (Cons x ts)
  then show ?case
    by (simp add: Decode_Encode unat_len64 read_fields_enc)
qed

lemma kind_narrow: "ucast (ucast (k :: 16 word) :: 64 word) = k"
  by (rule ucast_up_ucast_id) (simp add: is_up)

text \<open>
  Claim C10. For every event whose id and pubkey are 32 bytes and whose sig is 64
  bytes, decoding what \<^verbatim>\<open>MarshalBinary\<close> wrote gives back the same id, pubkey,
  created_at, kind, tags, content and sig, whatever follows the record in the buffer
  (it is left unread). The remaining hypotheses hold of every Go value: the number of
  tags, of elements of a tag, and the length of an element and of the content fit a
  \<^verbatim>\<open>uint64\<close>. The sign of created_at plays no role: the conversion to \<^verbatim>\<open>uint64\<close>
  and back keeps the bit pattern; the kind is unsigned.
\<close>

theorem UnmarshalBinary_MarshalBinary:
  assumes "length (ID ev) = 32" and "length (Pubkey ev) = 32" and "length (Sig ev) = 64"
    and "length (Tags ev) < 2 ^ 64"
    and "\<forall>x \<in> set (Tags ev). length x < 2 ^ 64 \<and> (\<forall>y \<in> set x. length y < 2 ^ 64)"
    and "length (Content ev) < 2 ^ 64"
  shows "UnmarshalBinary (MarshalBinary ev @ r) = Inr (ev, r)"
  using assms
  by (simp add: UnmarshalBinary_def MarshalBinary_def Read_exact' Decode_Encode unat_len64
      read_tags_enc [where acc = "[]", simplified] kind_narrow)

theorem UnmarshalBinary_MarshalBinary_witness:
  "length (ID note_ev) = 32 \<and> length (Pubkey note_ev) = 32 \<and> length (Sig note_ev) = 64 \<and>
   length (Tags note_ev) < 2 ^ 64 \<and> length (Content note_ev) < 2 ^ 64 \<and>
   UnmarshalBinary (MarshalBinary note_ev @ ''rest'') = Inr (note_ev, ''rest'')"
proof -
  have h: "length (ID note_ev) = 32" "length (Pubkey note_ev) = 32"
    "length (Sig note_ev) = 64" "length (Tags note_ev) < 2 ^ 64"
    "\<forall>x \<in> set (Tags note_ev). length x < 2 ^ 64 \<and> (\<forall>y \<in> set x. length y < 2 ^ 64)"
    "length (Content note_ev) < 2 ^ 64"
    by (simp_all add: note_ev_def)
  from UnmarshalBinary_MarshalBinary [OF h, of "''rest''"] h show ?thesis by blast
qed

section \<open>Properties of the signature check\<close>

lemma Verify_result:
  "fst (Verify sch cx ev) =
     (case ParsePubKey sch (Pubkey ev) of
        Inl e \<Rightarrow> (False, Some e)
      | Inr k \<Rightarrow>
         (case ParseSignature sch (Sig ev) of
            Inl e \<Rightarrow> (False, Some (Err ''failed to parse signature''))
          | Inr si \<Rightarrow> (Signature_Verify sch si (ID ev) k, None)))"
  by (auto simp: Verify_def InitPub_def Signer_Verify_def Let_def
      split: sum.splits option.splits prod.splits if_splits)

lemma Verify_keeps_event_when_id_right:
  "GetIDBytes cx ev = ID ev \<Longrightarrow> snd (Verify sch cx ev) = ev"
  by (auto simp: Verify_def InitPub_def Signer_Verify_def Let_def
      split: sum.splits option.splits prod.splits if_splits)

lemma replicate_32:
  "replicate 32 x =
     [x, x, x, x, x, x, x, x, x, x, x, x, x, x, x, x,
      x, x, x, x, x, x, x, x, x, x, x, x, x, x, x, x]"
  by (simp add: numeral_eq_Suc)

text \<open>
  Claim C9, as amended. \<^verbatim>\<open>Verify\<close> reports an event valid exactly when its pubkey
  parses, its signature parses and the signature verifies over the declared id with
  that pubkey, and then it returns no error. The recomputed id plays no part in the
  flag: \<^verbatim>\<open>Verify\<close> recomputes the id only after the signer returned an error, and
  on that path the flag is false. The comparison of the recomputed with the declared
  id is made by the caller (\<^verbatim>\<open>validate\<close>, the head of \<^verbatim>\<open>HandleEvent\<close>) before
  it calls \<^verbatim>\<open>Verify\<close>.
\<close>

theorem Verify_valid_iff:
  "fst (fst (Verify sch cx ev)) =
     (case ParsePubKey sch (Pubkey ev) of
        Inl e \<Rightarrow> False
      | Inr k \<Rightarrow>
         (case ParseSignature sch (Sig ev) of
            Inl e \<Rightarrow> False
          | Inr si \<Rightarrow> Signature_Verify sch si (ID ev) k)) \<and>
   fst (fst (Verify sch cx ev)) = (fst (Verify sch cx ev) = (True, None))"
  by (simp add: Verify_result split: sum.splits)

theorem Verify_valid_iff_witness:
  "fst (fst (Verify sample_schnorr (sample_codec [] []) (forged_ev\<lparr>Sig := ''short''\<rparr>))) = False \<and>
   fst (fst (Verify sample_schnorr (sample_codec [] []) forged_ev)) = True"
  using Verify_valid_iff [of sample_schnorr "sample_codec [] []" "forged_ev\<lparr>Sig := ''short''\<rparr>"]
    Verify_valid_iff [of sample_schnorr "sample_codec [] []" forged_ev]
  by (simp add: sample_schnorr_def forged_ev_def)

text \<open>
  The claim as stated fails: the sample event carries a declared id that is not the
  digest of its canonical form and a signature over that declared id, and \<^verbatim>\<open>Verify\<close>
  reports it valid, with no error.
\<close>

theorem Verify_id_mismatch_counterexample:
  "fst (Verify sample_schnorr (sample_codec [] []) forged_ev) = (True, None) \<and>
   GetIDBytes (sample_codec [] []) forged_ev \<noteq> ID forged_ev"
proof -
  have "fst (Verify sample_schnorr (sample_codec [] []) forged_ev) = (True, None)"
    by (simp add: Verify_result sample_schnorr_def forged_ev_def)
  moreover have "GetIDBytes (sample_codec [] []) forged_ev \<noteq> ID forged_ev"
    by (simp add: GetIDBytes_def Hash_def ToCanonical_def sample_codec_def forged_ev_def
        replicate_32)
  ultimately show ?thesis by simp
qed

section \<open>Properties of the EVENT handler\<close>

lemma Write_ok: "0 < credit l \<Longrightarrow> Write l e = Inr (l\<lparr>frames := frames l @ [e], credit := credit l - 1\<rparr>)"
  by (simp add: Write_def)

lemma reply_ok: "0 < credit l \<Longrightarrow> reply l e = l\<lparr>frames := frames l @ [e], credit := credit l - 1\<rparr>"
  by (simp add: reply_def Write_def)

lemma validate_id_mismatch:
  "GetIDBytes cx env0 \<noteq> ID env0 \<Longrightarrow>
   validate sch cx l env0 = Inl (reply l (Ok_Invalid env0 ''event id is computed incorrectly''))"
  by (simp add: validate_def)

text \<open>
  Claim C5. A submission whose recomputed id differs from its declared id is answered
  with an OK envelope for that id whose accepted flag is false and whose reason is the
  invalid-id message, and the store is left as it was. The reply presupposes that the
  connection still takes a write; the store is untouched in either case
  (\<open>HandleEvent_id_mismatch_store\<close>).
\<close>

theorem HandleEvent_id_mismatch:
  assumes "event_Unmarshal cx req = Inr env0"
    and "GetIDBytes cx env0 \<noteq> ID env0"
    and "0 < credit l"
  shows "HandleEvent sch cx srv (st, l) req =
           (st, l\<lparr>frames := frames l @
                    [OkEnvelope (ID env0) False ''invalid: event id is computed incorrectly''],
                  credit := credit l - 1\<rparr>)"
  using assms
  by (simp add: HandleEvent_def validate_id_mismatch reply_ok Ok_Invalid_def)

lemma HandleEvent_id_mismatch_store:
  assumes "event_Unmarshal cx req = Inr env0"
    and "GetIDBytes cx env0 \<noteq> ID env0"
  shows "fst (HandleEvent sch cx srv (st, l) req) = st"
  using assms by (simp add: HandleEvent_def validate_id_mismatch)

end
